theory Spec2Isabelle
  imports Complex_Main "HOL-Library.Sublist"
begin

section \<open>Python values as the handlers see them\<close>

text \<open>
  Every handler of \<^verbatim>\<open>app.py\<close> works on the value that \<^verbatim>\<open>request.get_json()\<close>
  returns: a Python object built by \<^verbatim>\<open>json.loads\<close>. The model starts at that point.
  A JSON number without fraction or exponent is a Python \<^verbatim>\<open>int\<close> (unbounded), any
  other number a \<^verbatim>\<open>float\<close>. A finite float is represented by its exact value, a
  rational; \<^verbatim>\<open>json.loads\<close> also yields the infinities (for \<^verbatim>\<open>1e999\<close> or
  \<^verbatim>\<open>Infinity\<close>) and \<^verbatim>\<open>NaN\<close>. A JSON object is a \<^verbatim>\<open>dict\<close> with string keys, kept
  as an association list in insertion order whose keys are distinct; the first binding of a
  key is the one that counts. Strings are sequences of code points below 256.
\<close>

datatype pyfloat = Finite rat | PosInf | NegInf | NaN

datatype json =
    JNull
  | JBool bool
  | JInt int
  | JFloat pyfloat
  | JStr string
  | JList "json list"
  | JObj "(string \<times> json) list"

text \<open>The exceptions that the operations used by the handlers can raise.\<close>

datatype exn = TypeError | ValueError | KeyError | AttributeError | OverflowError

text \<open>Truth value of an object, as \<^verbatim>\<open>not data\<close> tests it.\<close>

fun py_truthy :: "json \<Rightarrow> bool" where
  "py_truthy JNull = False"
| "py_truthy (JBool b) = b"
| "py_truthy (JInt i) = (i \<noteq> 0)"
| "py_truthy (JFloat f) = (f \<noteq> Finite 0)"
| "py_truthy (JStr s) = (s \<noteq> [])"
| "py_truthy (JList xs) = (xs \<noteq> [])"
| "py_truthy (JObj kvs) = (kvs \<noteq> [])"

text \<open>
  \<^verbatim>\<open>key in data\<close> for a string literal \<^verbatim>\<open>key\<close>: key membership on a dict, element
  membership on a list, substring test on a string, \<^verbatim>\<open>TypeError\<close> on everything else.
\<close>

fun py_in :: "string \<Rightarrow> json \<Rightarrow> exn + bool" where
  "py_in key (JObj kvs) = Inr (map_of kvs key \<noteq> None)"
| "py_in key (JList xs) = Inr (JStr key \<in> set xs)"
| "py_in key (JStr s) = Inr (sublist key s)"
| "py_in key _ = Inl TypeError"

text \<open>\<^verbatim>\<open>all(field in data for field in required_fields)\<close>: stops at the first miss.\<close>

fun py_all_in :: "string list \<Rightarrow> json \<Rightarrow> exn + bool" where
  "py_all_in [] data = Inr True"
| "py_all_in (field # fields) data =
     (case py_in field data of
        Inl e \<Rightarrow> Inl e
      | Inr False \<Rightarrow> Inr False
      | Inr True \<Rightarrow> py_all_in fields data)"

text \<open>\<^verbatim>\<open>data[key]\<close> for a string literal \<^verbatim>\<open>key\<close>.\<close>

fun py_getitem :: "json \<Rightarrow> string \<Rightarrow> exn + json" where
  "py_getitem (JObj kvs) key =
     (case map_of kvs key of None \<Rightarrow> Inl KeyError | Some v \<Rightarrow> Inr v)"
| "py_getitem _ key = Inl TypeError"

text \<open>\<^verbatim>\<open>data.get(key, default)\<close>: only a dict has the method.\<close>

fun py_get :: "json \<Rightarrow> string \<Rightarrow> json \<Rightarrow> exn + json" where
  "py_get (JObj kvs) key dflt =
     Inr (case map_of kvs key of None \<Rightarrow> dflt | Some v \<Rightarrow> v)"
| "py_get _ key dflt = Inl AttributeError"

subsection \<open>The built-in \<^verbatim>\<open>int()\<close>\<close>

text \<open>
  Whitespace that \<^verbatim>\<open>int()\<close> strips from a string: the six ASCII characters, and the
  two whitespace code points between 127 and 255, which CPython maps to a space first.
\<close>

definition is_space :: "char \<Rightarrow> bool" where
  "is_space c \<longleftrightarrow>
     c \<in> set [CHR 0x09, CHR 0x0A, CHR 0x0B, CHR 0x0C, CHR 0x0D, CHR 0x20, CHR 0x85, CHR 0xA0]"

definition is_digit :: "char \<Rightarrow> bool" where
  "is_digit c \<longleftrightarrow> c \<in> set ''0123456789''"

definition digit_val :: "char \<Rightarrow> int" where
  "digit_val c = int (of_char c) - 48"

fun digits_value :: "int \<Rightarrow> string \<Rightarrow> int" where
  "digits_value acc [] = acc"
| "digits_value acc (c # cs) = digits_value (10 * acc + digit_val c) cs"

text \<open>Two underscores in a row are refused.\<close>

fun double_underscore :: "string \<Rightarrow> bool" where
  "double_underscore (a # b # cs) =
     ((a = CHR ''_'' \<and> b = CHR ''_'') \<or> double_underscore (b # cs))"
| "double_underscore _ = False"

text \<open>
  The limit on the number of digits of a decimal string (\<^verbatim>\<open>sys.get_int_max_str_digits()\<close>,
  CPython's default).
\<close>

definition int_max_str_digits :: nat where
  "int_max_str_digits = 4300"

text \<open>
  \<^verbatim>\<open>int(s)\<close> for a string: optional whitespace, an optional sign, decimal digits with
  single underscores between them, optional whitespace; anything else is a
  \<^verbatim>\<open>ValueError\<close>.
\<close>

definition int_of_str :: "string \<Rightarrow> exn + int" where
  "int_of_str s =
     (let s1 = dropWhile is_space s;
          neg = (case s1 of c # _ \<Rightarrow> c = CHR ''-'' | [] \<Rightarrow> False);
          s2 = (case s1 of c # cs \<Rightarrow> if c = CHR ''+'' \<or> c = CHR ''-'' then cs else s1 | [] \<Rightarrow> s1);
          body = takeWhile (\<lambda>c. is_digit c \<or> c = CHR ''_'') s2;
          rest = dropWhile (\<lambda>c. is_digit c \<or> c = CHR ''_'') s2;
          ds = filter is_digit body
      in if body = [] \<or> \<not> is_digit (hd body) \<or> \<not> is_digit (last body) \<or> double_underscore body
            \<or> \<not> list_all is_space rest \<or> int_max_str_digits < length ds
         then Inl ValueError
         else Inr ((if neg then - 1 else 1) * digits_value 0 ds))"

text \<open>
  \<^verbatim>\<open>int(x)\<close> of a float truncates toward zero; an infinity raises
  \<^verbatim>\<open>OverflowError\<close>, NaN raises \<^verbatim>\<open>ValueError\<close>.
\<close>

fun int_of_float :: "pyfloat \<Rightarrow> exn + int" where
  "int_of_float (Finite r) = Inr (if 0 \<le> r then \<lfloor>r\<rfloor> else \<lceil>r\<rceil>)"
| "int_of_float PosInf = Inl OverflowError"
| "int_of_float NegInf = Inl OverflowError"
| "int_of_float NaN = Inl ValueError"

fun py_int :: "json \<Rightarrow> exn + int" where
  "py_int JNull = Inl TypeError"
| "py_int (JBool b) = Inr (if b then 1 else 0)"
| "py_int (JInt i) = Inr i"
| "py_int (JFloat f) = int_of_float f"
| "py_int (JStr s) = int_of_str s"
| "py_int (JList xs) = Inl TypeError"
| "py_int (JObj kvs) = Inl TypeError"

section \<open>The three collections\<close>

text \<open>
  \<^verbatim>\<open>shipments\<close>, \<^verbatim>\<open>inventory\<close> and \<^verbatim>\<open>orders\<close> are Python dicts. Their keys are
  whatever the request carried under the id field, or the string of the URL. A dict
  refuses an unhashable key (a list or a dict) with \<^verbatim>\<open>TypeError\<close>, and it identifies
  keys that compare equal: \<^verbatim>\<open>True\<close>, \<^verbatim>\<open>1\<close> and \<^verbatim>\<open>1.0\<close> are one key.
  \<open>dict_key\<close> picks the representative of a key's class. A dict keeps insertion order,
  and assigning to a key that is present keeps its place.
\<close>

fun hashable :: "json \<Rightarrow> bool" where
  "hashable (JList xs) = False"
| "hashable (JObj kvs) = False"
| "hashable _ = True"

fun dict_key :: "json \<Rightarrow> json" where
  "dict_key (JBool b) = JInt (if b then 1 else 0)"
| "dict_key (JFloat (Finite r)) = (if r = of_int \<lfloor>r\<rfloor> then JInt \<lfloor>r\<rfloor> else JFloat (Finite r))"
| "dict_key k = k"

definition key_eq :: "json \<Rightarrow> json \<Rightarrow> bool" where
  "key_eq a b \<longleftrightarrow> dict_key a = dict_key b"

text \<open>\<^verbatim>\<open>d[k]\<close> and \<^verbatim>\<open>d.get(k)\<close> for a hashable key: the value, if the key is present.\<close>

fun dict_lookup :: "(json \<times> 'v) list \<Rightarrow> json \<Rightarrow> 'v option" where
  "dict_lookup [] k = None"
| "dict_lookup ((k', v') # d) k = (if key_eq k' k then Some v' else dict_lookup d k)"

text \<open>\<^verbatim>\<open>k in d\<close>: hashes the key first.\<close>

definition dict_contains :: "(json \<times> 'v) list \<Rightarrow> json \<Rightarrow> exn + bool" where
  "dict_contains d k =
     (if hashable k then Inr (dict_lookup d k \<noteq> None) else Inl TypeError)"

text \<open>
  \<^verbatim>\<open>d[k] = v\<close> for a key that has been hashed before: replaces the value of a present
  key, appends a new key. A record that a handler mutates in place is written back the
  same way.
\<close>

fun dict_set :: "(json \<times> 'v) list \<Rightarrow> json \<Rightarrow> 'v \<Rightarrow> (json \<times> 'v) list" where
  "dict_set [] k v = [(k, v)]"
| "dict_set ((k', v') # d) k v =
     (if key_eq k' k then (k', v) # d else (k', v') # dict_set d k v)"

text \<open>\<^verbatim>\<open>d.values()\<close>, in insertion order.\<close>

definition dict_values :: "(json \<times> 'v) list \<Rightarrow> 'v list" where
  "dict_values d = map snd d"

subsection \<open>The stored records\<close>

text \<open>
  Each stored value is a dict with a fixed set of keys. A field holds whatever JSON value
  the request carried, unless the handler computes it: a timestamp is the string that
  \<^verbatim>\<open>datetime.utcnow().isoformat()\<close> returned, passed to the handler as an argument, and
  a quantity is the result of \<^verbatim>\<open>int()\<close>.
\<close>

record order =
  o_order_id :: json
  o_customer :: json
  o_items :: json
  o_status :: string
  o_created_at :: string

text \<open>
  An entry of \<^verbatim>\<open>tracking_history\<close>: the entry written at creation has no
  \<^verbatim>\<open>notes\<close> key, the entries appended by location updates have one.
\<close>

record tracking_entry =
  t_location :: json
  t_status :: json
  t_timestamp :: string
  t_notes :: "json option"

record shipment =
  s_shipment_id :: json
  s_origin :: json
  s_destination :: json
  s_status :: json
  s_current_location :: json
  s_created_at :: string
  s_estimated_delivery :: json
  s_tracking_history :: "tracking_entry list"

record item =
  i_item_id :: json
  i_name :: json
  i_quantity :: int
  i_location :: json
  i_category :: json
  i_last_updated :: string

record store =
  shipments :: "(json \<times> shipment) list"
  inventory :: "(json \<times> item) list"
  orders :: "(json \<times> order) list"

definition empty_store :: store where
  "empty_store = \<lparr>shipments = [], inventory = [], orders = []\<rparr>"

subsection \<open>Responses\<close>

text \<open>What \<^verbatim>\<open>jsonify\<close> makes of the stored dicts.\<close>

definition order_json :: "order \<Rightarrow> json" where
  "order_json r = JObj
     [(''order_id'', o_order_id r),
      (''customer'', o_customer r),
      (''items'', o_items r),
      (''status'', JStr (o_status r)),
      (''created_at'', JStr (o_created_at r))]"

definition entry_json :: "tracking_entry \<Rightarrow> json" where
  "entry_json e = JObj
     ([(''location'', t_location e),
       (''status'', t_status e),
       (''timestamp'', JStr (t_timestamp e))]
      @ (case t_notes e of None \<Rightarrow> [] | Some n \<Rightarrow> [(''notes'', n)]))"

definition shipment_json :: "shipment \<Rightarrow> json" where
  "shipment_json r = JObj
     [(''shipment_id'', s_shipment_id r),
      (''origin'', s_origin r),
      (''destination'', s_destination r),
      (''status'', s_status r),
      (''current_location'', s_current_location r),
      (''created_at'', JStr (s_created_at r)),
      (''estimated_delivery'', s_estimated_delivery r),
      (''tracking_history'', JList (map entry_json (s_tracking_history r)))]"

definition item_json :: "item \<Rightarrow> json" where
  "item_json r = JObj
     [(''item_id'', i_item_id r),
      (''name'', i_name r),
      (''quantity'', JInt (i_quantity r)),
      (''location'', i_location r),
      (''category'', i_category r),
      (''last_updated'', JStr (i_last_updated r))]"

text \<open>
  A handler returns a body and a status code, or raises. It also returns the store, since
  it may have written to it.
\<close>

type_synonym response = "json \<times> nat"

type_synonym outcome = "store \<times> (exn + response)"

definition reply :: "store \<Rightarrow> json \<Rightarrow> nat \<Rightarrow> outcome" where
  "reply st body code = (st, Inr (body, code))"

definition raise :: "store \<Rightarrow> exn \<Rightarrow> outcome" where
  "raise st e = (st, Inl e)"

definition error_body :: "string \<Rightarrow> json" where
  "error_body msg = JObj [(''error'', JStr msg)]"

definition missing_fields_body :: "string list \<Rightarrow> json" where
  "missing_fields_body required_fields = JObj
     [(''error'', JStr ''Missing required fields''),
      (''required'', JList (map JStr required_fields))]"

text \<open>
  The status code that the client sees: an exception that leaves a handler reaches the
  \<^verbatim>\<open>errorhandler(500)\<close>.
\<close>

definition internal_error :: response where
  "internal_error = (error_body ''Internal server error'', 500)"

definition response_of :: "outcome \<Rightarrow> response" where
  "response_of out = (case snd out of Inl e \<Rightarrow> internal_error | Inr r \<Rightarrow> r)"

definition status_code :: "outcome \<Rightarrow> nat" where
  "status_code out = snd (response_of out)"

section \<open>Order management\<close>

definition create_order :: "store \<Rightarrow> json \<Rightarrow> string \<Rightarrow> outcome" where
  "create_order st data now =
     (if \<not> py_truthy data then
        reply st (error_body ''Invalid order data - order_id is required'') 400
      else case py_in ''order_id'' data of
        Inl e \<Rightarrow> raise st e
      | Inr False \<Rightarrow> reply st (error_body ''Invalid order data - order_id is required'') 400
      | Inr True \<Rightarrow>
      (case py_getitem data ''order_id'' of
        Inl e \<Rightarrow> raise st e
      | Inr order_id \<Rightarrow>
      (case dict_contains (orders st) order_id of
        Inl e \<Rightarrow> raise st e
      | Inr True \<Rightarrow> reply st (error_body ''Order already exists'') 409
      | Inr False \<Rightarrow>
      (case py_get data ''customer'' (JStr ''Unknown'') of
        Inl e \<Rightarrow> raise st e
      | Inr customer \<Rightarrow>
      (case py_get data ''items'' (JList []) of
        Inl e \<Rightarrow> raise st e
      | Inr items \<Rightarrow>
        let new_order = \<lparr>o_order_id = order_id, o_customer = customer, o_items = items,
                         o_status = ''created'', o_created_at = now\<rparr>;
            st' = st\<lparr>orders := dict_set (orders st) order_id new_order\<rparr>
        in reply st'
             (JObj [(''message'', JStr ''Order created successfully''),
                    (''order'', order_json new_order)])
             201)))))"

definition get_order :: "store \<Rightarrow> string \<Rightarrow> outcome" where
  "get_order st order_id =
     (case dict_lookup (orders st) (JStr order_id) of
        None \<Rightarrow> reply st (error_body ''Order not found'') 404
      | Some r \<Rightarrow> reply st (order_json r) 200)"

section \<open>Shipment tracking\<close>

text \<open>
  \<^verbatim>\<open>create_shipment\<close> reads the clock twice: for \<^verbatim>\<open>created_at\<close>, then for the first
  entry of the history.
\<close>

definition create_shipment :: "store \<Rightarrow> json \<Rightarrow> string \<Rightarrow> string \<Rightarrow> outcome" where
  "create_shipment st data now now' =
     (let required_fields = [''shipment_id'', ''origin'', ''destination''] in
      if \<not> py_truthy data then reply st (missing_fields_body required_fields) 400
      else case py_all_in required_fields data of
        Inl e \<Rightarrow> raise st e
      | Inr False \<Rightarrow> reply st (missing_fields_body required_fields) 400
      | Inr True \<Rightarrow>
      (case py_getitem data ''shipment_id'' of
        Inl e \<Rightarrow> raise st e
      | Inr shipment_id \<Rightarrow>
      (case dict_contains (shipments st) shipment_id of
        Inl e \<Rightarrow> raise st e
      | Inr True \<Rightarrow> reply st (error_body ''Shipment already exists'') 409
      | Inr False \<Rightarrow>
      (case py_getitem data ''origin'' of
        Inl e \<Rightarrow> raise st e
      | Inr origin \<Rightarrow>
      (case py_getitem data ''destination'' of
        Inl e \<Rightarrow> raise st e
      | Inr destination \<Rightarrow>
      (case py_get data ''estimated_delivery'' JNull of
        Inl e \<Rightarrow> raise st e
      | Inr estimated_delivery \<Rightarrow>
        let new_shipment =
              \<lparr>s_shipment_id = shipment_id, s_origin = origin, s_destination = destination,
               s_status = JStr ''pending'', s_current_location = origin,
               s_created_at = now, s_estimated_delivery = estimated_delivery,
               s_tracking_history =
                 [\<lparr>t_location = origin, t_status = JStr ''pending'',
                   t_timestamp = now', t_notes = None\<rparr>]\<rparr>;
            st' = st\<lparr>shipments := dict_set (shipments st) shipment_id new_shipment\<rparr>
        in reply st'
             (JObj [(''message'', JStr ''Shipment created successfully''),
                    (''shipment'', shipment_json new_shipment)])
             201))))))"

definition get_shipment :: "store \<Rightarrow> string \<Rightarrow> outcome" where
  "get_shipment st shipment_id =
     (case dict_lookup (shipments st) (JStr shipment_id) of
        None \<Rightarrow> reply st (error_body ''Shipment not found'') 404
      | Some r \<Rightarrow> reply st (shipment_json r) 200)"

text \<open>
  \<^verbatim>\<open>update_shipment_location\<close> mutates the stored dict in three steps, and reads the
  request between them; the store is written back after each step, so that an exception
  would leave what the steps before it did.
\<close>

definition put_shipment :: "store \<Rightarrow> string \<Rightarrow> shipment \<Rightarrow> store" where
  "put_shipment st shipment_id r =
     st\<lparr>shipments := dict_set (shipments st) (JStr shipment_id) r\<rparr>"

definition update_shipment_location :: "store \<Rightarrow> string \<Rightarrow> json \<Rightarrow> string \<Rightarrow> outcome" where
  "update_shipment_location st shipment_id data now =
     (case dict_lookup (shipments st) (JStr shipment_id) of
        None \<Rightarrow> reply st (error_body ''Shipment not found'') 404
      | Some shipment \<Rightarrow>
      if \<not> py_truthy data then reply st (error_body ''Location is required'') 400
      else (case py_in ''location'' data of
        Inl e \<Rightarrow> raise st e
      | Inr False \<Rightarrow> reply st (error_body ''Location is required'') 400
      | Inr True \<Rightarrow>
      (case py_getitem data ''location'' of
        Inl e \<Rightarrow> raise st e
      | Inr location \<Rightarrow>
        let shipment1 = shipment\<lparr>s_current_location := location\<rparr>;
            st1 = put_shipment st shipment_id shipment1
        in
      (case py_get data ''status'' (JStr ''in_transit'') of
        Inl e \<Rightarrow> raise st1 e
      | Inr status \<Rightarrow>
        let shipment2 = shipment1\<lparr>s_status := status\<rparr>;
            st2 = put_shipment st1 shipment_id shipment2
        in
      (case py_getitem data ''location'' of
        Inl e \<Rightarrow> raise st2 e
      | Inr location' \<Rightarrow>
      (case py_get data ''notes'' (JStr []) of
        Inl e \<Rightarrow> raise st2 e
      | Inr notes \<Rightarrow>
        let entry = \<lparr>t_location = location', t_status = s_status shipment2,
                     t_timestamp = now, t_notes = Some notes\<rparr>;
            shipment3 = shipment2\<lparr>s_tracking_history := s_tracking_history shipment2 @ [entry]\<rparr>;
            st3 = put_shipment st2 shipment_id shipment3
        in reply st3
             (JObj [(''message'', JStr ''Location updated successfully''),
                    (''shipment'', shipment_json shipment3)])
             200))))))"

text \<open>
  \<^verbatim>\<open>request.args.get('status')\<close> is \<^verbatim>\<open>None\<close> or a string; \<^verbatim>\<open>if status_filter:\<close>
  takes the filtering branch for a non-empty string only.
\<close>

definition list_shipments :: "store \<Rightarrow> string option \<Rightarrow> outcome" where
  "list_shipments st status_filter =
     (let filtered_shipments =
            (case status_filter of
               None \<Rightarrow> dict_values (shipments st)
             | Some f \<Rightarrow>
                 if f \<noteq> [] then filter (\<lambda>s. s_status s = JStr f) (dict_values (shipments st))
                 else dict_values (shipments st))
      in reply st
           (JObj [(''count'', JInt (int (length filtered_shipments))),
                  (''shipments'', JList (map shipment_json filtered_shipments))])
           200)"

section \<open>Inventory management\<close>

definition get_inventory :: "store \<Rightarrow> outcome" where
  "get_inventory st =
     reply st
       (JObj [(''count'', JInt (int (length (inventory st)))),
              (''inventory'', JList (map item_json (dict_values (inventory st))))])
       200"

text \<open>
  The \<^verbatim>\<open>try\<close> block around \<^verbatim>\<open>int(data["quantity"])\<close>: the subscript is inside it, and
  the handler catches \<^verbatim>\<open>ValueError\<close> and \<^verbatim>\<open>TypeError\<close> only.
\<close>

datatype parsed = Parsed int | Negative | Invalid | Uncaught exn

definition caught :: "exn \<Rightarrow> parsed" where
  "caught e = (if e = ValueError \<or> e = TypeError then Invalid else Uncaught e)"

definition parse_quantity :: "json \<Rightarrow> parsed" where
  "parse_quantity data =
     (case py_getitem data ''quantity'' of
        Inl e \<Rightarrow> caught e
      | Inr q \<Rightarrow>
          (case py_int q of
             Inl e \<Rightarrow> caught e
           | Inr quantity \<Rightarrow> if quantity < 0 then Negative else Parsed quantity))"

definition add_inventory_item :: "store \<Rightarrow> json \<Rightarrow> string \<Rightarrow> outcome" where
  "add_inventory_item st data now =
     (let required_fields = [''item_id'', ''name'', ''quantity''] in
      if \<not> py_truthy data then reply st (missing_fields_body required_fields) 400
      else case py_all_in required_fields data of
        Inl e \<Rightarrow> raise st e
      | Inr False \<Rightarrow> reply st (missing_fields_body required_fields) 400
      | Inr True \<Rightarrow>
      (case py_getitem data ''item_id'' of
        Inl e \<Rightarrow> raise st e
      | Inr item_id \<Rightarrow>
      (case dict_contains (inventory st) item_id of
        Inl e \<Rightarrow> raise st e
      | Inr True \<Rightarrow> reply st (error_body ''Item already exists'') 409
      | Inr False \<Rightarrow>
      (case parse_quantity data of
        Uncaught e \<Rightarrow> raise st e
      | Invalid \<Rightarrow> reply st (error_body ''Quantity must be a valid integer'') 400
      | Negative \<Rightarrow> reply st (error_body ''Quantity must be non-negative'') 400
      | Parsed quantity \<Rightarrow>
      (case py_getitem data ''name'' of
        Inl e \<Rightarrow> raise st e
      | Inr name \<Rightarrow>
      (case py_get data ''location'' (JStr ''Warehouse'') of
        Inl e \<Rightarrow> raise st e
      | Inr location \<Rightarrow>
      (case py_get data ''category'' (JStr ''General'') of
        Inl e \<Rightarrow> raise st e
      | Inr category \<Rightarrow>
        let new_item = \<lparr>i_item_id = item_id, i_name = name, i_quantity = quantity,
                        i_location = location, i_category = category,
                        i_last_updated = now\<rparr>;
            st' = st\<lparr>inventory := dict_set (inventory st) item_id new_item\<rparr>
        in reply st'
             (JObj [(''message'', JStr ''Inventory item added successfully''),
                    (''item'', item_json new_item)])
             201)))))))"

definition get_inventory_item :: "store \<Rightarrow> string \<Rightarrow> outcome" where
  "get_inventory_item st item_id =
     (case dict_lookup (inventory st) (JStr item_id) of
        None \<Rightarrow> reply st (error_body ''Item not found'') 404
      | Some r \<Rightarrow> reply st (item_json r) 200)"

definition update_stock :: "store \<Rightarrow> string \<Rightarrow> json \<Rightarrow> string \<Rightarrow> outcome" where
  "update_stock st item_id data now =
     (case dict_lookup (inventory st) (JStr item_id) of
        None \<Rightarrow> reply st (error_body ''Item not found'') 404
      | Some stored \<Rightarrow>
      if \<not> py_truthy data then reply st (error_body ''Quantity is required'') 400
      else (case py_in ''quantity'' data of
        Inl e \<Rightarrow> raise st e
      | Inr False \<Rightarrow> reply st (error_body ''Quantity is required'') 400
      | Inr True \<Rightarrow>
      (case parse_quantity data of
        Uncaught e \<Rightarrow> raise st e
      | Invalid \<Rightarrow> reply st (error_body ''Quantity must be a valid integer'') 400
      | Negative \<Rightarrow> reply st (error_body ''Quantity must be non-negative'') 400
      | Parsed quantity \<Rightarrow>
        let updated = stored\<lparr>i_quantity := quantity, i_last_updated := now\<rparr>;
            st' = st\<lparr>inventory := dict_set (inventory st) (JStr item_id) updated\<rparr>
        in reply st'
             (JObj [(''message'', JStr ''Stock updated successfully''),
                    (''item'', item_json updated)])
             200)))"

section \<open>Route optimization\<close>

definition optimize_route :: "store \<Rightarrow> json \<Rightarrow> outcome" where
  "optimize_route st data =
     (let required_fields = [''start'', ''waypoints'', ''end''] in
      if \<not> py_truthy data then reply st (missing_fields_body required_fields) 400
      else case py_all_in required_fields data of
        Inl e \<Rightarrow> raise st e
      | Inr False \<Rightarrow> reply st (missing_fields_body required_fields) 400
      | Inr True \<Rightarrow>
      (case py_getitem data ''waypoints'' of
        Inl e \<Rightarrow> raise st e
      | Inr (JList waypoints) \<Rightarrow>
          let total_stops = int (length waypoints) + 1;
              estimated_time = total_stops * 30
          in
          (case py_getitem data ''start'' of
             Inl e \<Rightarrow> raise st e
           | Inr start \<Rightarrow>
          (case py_getitem data ''end'' of
             Inl e \<Rightarrow> raise st e
           | Inr end' \<Rightarrow>
             reply st
               (JObj [(''message'', JStr ''Route optimized successfully''),
                      (''route'', JObj
                         [(''start'', start),
                          (''waypoints'', JList waypoints),
                          (''end'', end'),
                          (''total_stops'', JInt total_stops),
                          (''estimated_time_minutes'', JInt estimated_time),
                          (''optimized'', JBool True),
                          (''route_efficiency'', JStr ''optimal'')])])
               200))
      | Inr _ \<Rightarrow> reply st (error_body ''Waypoints must be a list'') 400))"

section \<open>Sequences of requests\<close>

datatype request =
    CreateOrder json string
  | GetOrder string
  | CreateShipment json string string
  | GetShipment string
  | UpdateShipmentLocation string json string
  | ListShipments "string option"
  | GetInventory
  | AddInventoryItem json string
  | GetInventoryItem string
  | UpdateStock string json string
  | OptimizeRoute json

fun handle :: "store \<Rightarrow> request \<Rightarrow> outcome" where
  "handle st (CreateOrder data now) = create_order st data now"
| "handle st (GetOrder order_id) = get_order st order_id"
| "handle st (CreateShipment data now now') = create_shipment st data now now'"
| "handle st (GetShipment shipment_id) = get_shipment st shipment_id"
| "handle st (UpdateShipmentLocation shipment_id data now) =
     update_shipment_location st shipment_id data now"
| "handle st (ListShipments status_filter) = list_shipments st status_filter"
| "handle st GetInventory = get_inventory st"
| "handle st (AddInventoryItem data now) = add_inventory_item st data now"
| "handle st (GetInventoryItem item_id) = get_inventory_item st item_id"
| "handle st (UpdateStock item_id data now) = update_stock st item_id data now"
| "handle st (OptimizeRoute data) = optimize_route st data"

text \<open>The store after a sequence of requests, served one after the other.\<close>

fun run :: "store \<Rightarrow> request list \<Rightarrow> store" where
  "run st [] = st"
| "run st (r # rs) = run (fst (handle st r)) rs"

text \<open>The payloads that the test suite of the repository uses (\<^verbatim>\<open>test_app.py\<close>).\<close>

definition sample_order :: json where
  "sample_order = JObj
     [(''order_id'', JStr ''ORD-001''),
      (''customer'', JStr ''John Doe''),
      (''items'', JList [JStr ''item1'', JStr ''item2''])]"

definition sample_shipment :: json where
  "sample_shipment = JObj
     [(''shipment_id'', JStr ''SHP-001''),
      (''origin'', JStr ''New York''),
      (''destination'', JStr ''Los Angeles''),
      (''estimated_delivery'', JStr ''2026-02-20'')]"

definition sample_inventory :: json where
  "sample_inventory = JObj
     [(''item_id'', JStr ''ITM-001''),
      (''name'', JStr ''Widget''),
      (''quantity'', JInt 100),
      (''location'', JStr ''Warehouse A''),
      (''category'', JStr ''Electronics'')]"

section \<open>Facts about dicts\<close>

lemma key_eq_refl [simp]: "key_eq k k"
  by (simp add: key_eq_def)

lemma dict_key_JStr [simp]: "dict_key k = JStr s \<longleftrightarrow> k = JStr s"
  by (induction k rule: dict_key.induct) auto

lemma key_eq_JStr [simp]:
  "key_eq k (JStr s) \<longleftrightarrow> k = JStr s"
  "key_eq (JStr s) k \<longleftrightarrow> k = JStr s"
  by (auto simp: key_eq_def dest: sym)

lemma dict_lookup_dict_set:
  "dict_lookup (dict_set d k v) k' = (if key_eq k k' then Some v else dict_lookup d k')"
  by (induction d) (auto simp: key_eq_def)

lemma dict_set_absent: "dict_lookup d k = None \<Longrightarrow> dict_set d k v = d @ [(k, v)]"
  by (induction d) (auto split: if_splits)

lemma dict_set_twice [simp]: "dict_set (dict_set d k v) k w = dict_set d k w"
  by (induction d) auto

lemma keys_dict_set_present:
  "dict_lookup d k \<noteq> None \<Longrightarrow> map fst (dict_set d k v) = map fst d"
  by (induction d) auto

lemma set_dict_set: "(k', v') \<in> set (dict_set d k v) \<Longrightarrow> v' = v \<or> (k', v') \<in> set d"
  by (induction d) (auto split: if_splits)

lemma map_of_Some_nonempty: "map_of kvs key = Some v \<Longrightarrow> kvs \<noteq> []"
  by auto

lemma py_all_in_JObj:
  "py_all_in fs (JObj kvs) = Inr (\<forall>f \<in> set fs. map_of kvs f \<noteq> None)"
  by (induction fs) (auto split: bool.splits)

section \<open>Orders\<close>

text \<open>
  Claim C5. When \<^verbatim>\<open>order_id in orders\<close> holds for the \<^verbatim>\<open>order_id\<close> of the request
  dict, \<^verbatim>\<open>create_order\<close> answers 409 with the message "Order already exists" and the
  store it leaves is the store it found: the record under that id is still the one that
  the first call wrote.
\<close>

theorem create_order_duplicate_conflict:
  assumes "map_of kvs ''order_id'' = Some order_id"
    and "dict_contains (orders st) order_id = Inr True"
  shows "create_order st (JObj kvs) now = (st, Inr (error_body ''Order already exists'', 409))
       \<and> dict_lookup (orders (fst (create_order st (JObj kvs) now))) order_id
           = dict_lookup (orders st) order_id"
  using assms map_of_Some_nonempty [of kvs "''order_id''" order_id]
  by (simp add: create_order_def reply_def raise_def)

text \<open>
  The store after the order of the test suite was created at time \<open>t1\<close>; a second request
  with the same id and another customer leaves John Doe's order in place.
\<close>

theorem create_order_duplicate_conflict_witness:
  "map_of [(''order_id'', JStr ''ORD-001''), (''customer'', JStr ''Jane'')] ''order_id''
     = Some (JStr ''ORD-001'')
   \<and> dict_contains (orders (fst (create_order empty_store sample_order ''t1''))) (JStr ''ORD-001'')
     = Inr True
   \<and> status_code (create_order (fst (create_order empty_store sample_order ''t1''))
        (JObj [(''order_id'', JStr ''ORD-001''), (''customer'', JStr ''Jane'')]) ''t2'') = 409
   \<and> dict_lookup
        (orders (fst (create_order (fst (create_order empty_store sample_order ''t1''))
           (JObj [(''order_id'', JStr ''ORD-001''), (''customer'', JStr ''Jane'')]) ''t2'')))
        (JStr ''ORD-001'')
     = Some \<lparr>o_order_id = JStr ''ORD-001'', o_customer = JStr ''John Doe'',
              o_items = JList [JStr ''item1'', JStr ''item2''],
              o_status = ''created'', o_created_at = ''t1''\<rparr>"
proof -
  let ?st = "fst (create_order empty_store sample_order ''t1'')"
  let ?kvs = "[(''order_id'', JStr ''ORD-001''), (''customer'', JStr ''Jane'')]"
  have st: "?st = \<lparr>shipments = [], inventory = [],
      orders = [(JStr ''ORD-001'',
        \<lparr>o_order_id = JStr ''ORD-001'', o_customer = JStr ''John Doe'',
         o_items = JList [JStr ''item1'', JStr ''item2''],
         o_status = ''created'', o_created_at = ''t1''\<rparr>)]\<rparr>"
    by (simp add: create_order_def sample_order_def empty_store_def reply_def raise_def Let_def
        dict_contains_def)
  have h1: "map_of ?kvs ''order_id'' = Some (JStr ''ORD-001'')"
    by simp
  have h2: "dict_contains (orders ?st) (JStr ''ORD-001'') = Inr True"
    by (simp add: st dict_contains_def)
  from create_order_duplicate_conflict [OF h1 h2, of "''t2''"] h1 h2 show ?thesis
    by (simp add: st status_code_def response_of_def)
qed

text \<open>
  Claim C9, as stated, fails for an \<^verbatim>\<open>order_id\<close> that is not a string.
  \<^verbatim>\<open>create_order\<close> takes whatever value the request dict carries under
  \<^verbatim>\<open>order_id\<close> as the key, while \<^verbatim>\<open>get_order\<close> receives the string of the URL.
  The body \<^verbatim>\<open>{"order_id": 5}\<close> on the empty store is answered with 201 and stored under
  the integer 5; \<^verbatim>\<open>GET /order/5\<close> then looks up the string "5" and answers 404.
\<close>

theorem create_order_numeric_id_counterexample:
  "create_order empty_store (JObj [(''order_id'', JInt 5)]) ''t1'' =
     (\<lparr>shipments = [], inventory = [],
       orders = [(JInt 5,
                  \<lparr>o_order_id = JInt 5, o_customer = JStr ''Unknown'', o_items = JList [],
                   o_status = ''created'', o_created_at = ''t1''\<rparr>)]\<rparr>,
      Inr (JObj [(''message'', JStr ''Order created successfully''),
                 (''order'', JObj [(''order_id'', JInt 5),
                                   (''customer'', JStr ''Unknown''),
                                   (''items'', JList []),
                                   (''status'', JStr ''created''),
                                   (''created_at'', JStr ''t1'')])], 201))
   \<and> snd (get_order (fst (create_order empty_store (JObj [(''order_id'', JInt 5)]) ''t1'')) ''5'')
     = Inr (JObj [(''error'', JStr ''Order not found'')], 404)"
  by (simp add: create_order_def get_order_def empty_store_def reply_def raise_def
      dict_contains_def order_json_def error_body_def Let_def)

text \<open>
  Claim C9, amended. For a request dict whose \<^verbatim>\<open>order_id\<close> is a string that is not yet a
  key, \<^verbatim>\<open>create_order\<close> answers 201 with the new record, and \<^verbatim>\<open>get_order\<close> with that
  string, on the store that the creation left, answers 200 with the same record and leaves
  the store as it is: its \<^verbatim>\<open>order_id\<close> is the string supplied, its \<^verbatim>\<open>status\<close> is
  "created", \<^verbatim>\<open>customer\<close> and \<^verbatim>\<open>items\<close> are those of the request or the defaults, and
  \<^verbatim>\<open>created_at\<close> is the clock reading of the creation.
\<close>

theorem create_order_then_get_order:
  assumes "map_of kvs ''order_id'' = Some (JStr oid)"
    and "dict_contains (orders st) (JStr oid) = Inr False"
  shows "snd (create_order st (JObj kvs) now) =
           Inr (JObj [(''message'', JStr ''Order created successfully''),
                      (''order'', JObj
                         [(''order_id'', JStr oid),
                          (''customer'',
                             case map_of kvs ''customer'' of None \<Rightarrow> JStr ''Unknown'' | Some v \<Rightarrow> v),
                          (''items'', case map_of kvs ''items'' of None \<Rightarrow> JList [] | Some v \<Rightarrow> v),
                          (''status'', JStr ''created''),
                          (''created_at'', JStr now)])], 201)
       \<and> get_order (fst (create_order st (JObj kvs) now)) oid =
           (fst (create_order st (JObj kvs) now),
            Inr (JObj [(''order_id'', JStr oid),
                       (''customer'',
                          case map_of kvs ''customer'' of None \<Rightarrow> JStr ''Unknown'' | Some v \<Rightarrow> v),
                       (''items'', case map_of kvs ''items'' of None \<Rightarrow> JList [] | Some v \<Rightarrow> v),
                       (''status'', JStr ''created''),
                       (''created_at'', JStr now)], 200))"
  using assms map_of_Some_nonempty [of kvs "''order_id''" "JStr oid"]
  by (simp add: create_order_def get_order_def reply_def raise_def order_json_def
      dict_contains_def dict_lookup_dict_set Let_def)

text \<open>
  The order of the test suite on the empty store: the answer of \<^verbatim>\<open>GET /order/ORD-001\<close>
  after the creation at time \<open>t1\<close>.
\<close>

theorem create_order_then_get_order_witness:
  "dict_contains (orders empty_store) (JStr ''ORD-001'') = Inr False
   \<and> snd (get_order (fst (create_order empty_store sample_order ''t1'')) ''ORD-001'')
     = Inr (JObj [(''order_id'', JStr ''ORD-001''),
                  (''customer'', JStr ''John Doe''),
                  (''items'', JList [JStr ''item1'', JStr ''item2'']),
                  (''status'', JStr ''created''),
                  (''created_at'', JStr ''t1'')], 200)"
proof -
  let ?kvs = "[(''order_id'', JStr ''ORD-001''), (''customer'', JStr ''John Doe''),
               (''items'', JList [JStr ''item1'', JStr ''item2''])]"
  have h1: "map_of ?kvs ''order_id'' = Some (JStr ''ORD-001'')"
    by simp
  have h2: "dict_contains (orders empty_store) (JStr ''ORD-001'') = Inr False"
    by (simp add: dict_contains_def empty_store_def)
  have "get_order (fst (create_order empty_store (JObj ?kvs) ''t1'')) ''ORD-001'' =
      (fst (create_order empty_store (JObj ?kvs) ''t1''),
       Inr (JObj [(''order_id'', JStr ''ORD-001''),
                  (''customer'', JStr ''John Doe''),
                  (''items'', JList [JStr ''item1'', JStr ''item2'']),
                  (''status'', JStr ''created''),
                  (''created_at'', JStr ''t1'')], 200))"
    using create_order_then_get_order [OF h1 h2, of "''t1''"] by simp
  with h2 show ?thesis
    by (simp add: sample_order_def)
qed

section \<open>Shipments\<close>

text \<open>What \<^verbatim>\<open>create_shipment\<close> does with a request dict that has the three fields.\<close>

lemma create_shipment_result:
  assumes "map_of kvs ''shipment_id'' = Some sid"
    and "map_of kvs ''origin'' = Some origin"
    and "map_of kvs ''destination'' = Some dest"
    and "dict_contains (shipments st) sid = Inr False"
  shows "create_shipment st (JObj kvs) now now' =
    (let new = \<lparr>s_shipment_id = sid, s_origin = origin, s_destination = dest,
                s_status = JStr ''pending'', s_current_location = origin,
                s_created_at = now,
                s_estimated_delivery =
                  (case map_of kvs ''estimated_delivery'' of None \<Rightarrow> JNull | Some v \<Rightarrow> v),
                s_tracking_history =
                  [\<lparr>t_location = origin, t_status = JStr ''pending'',
                    t_timestamp = now', t_notes = None\<rparr>]\<rparr>
     in (st\<lparr>shipments := dict_set (shipments st) sid new\<rparr>,
         Inr (JObj [(''message'', JStr ''Shipment created successfully''),
                    (''shipment'', shipment_json new)], 201)))"
  using assms map_of_Some_nonempty [OF assms(1)]
  by (simp add: create_shipment_def reply_def raise_def Let_def py_all_in_JObj
      del: py_all_in.simps)

lemma create_shipment_missing:
  assumes "map_of kvs ''shipment_id'' = None \<or> map_of kvs ''origin'' = None
    \<or> map_of kvs ''destination'' = None"
  shows "create_shipment st (JObj kvs) now now' =
     (st, Inr (missing_fields_body [''shipment_id'', ''origin'', ''destination''], 400))"
  using assms
  by (auto simp add: create_shipment_def reply_def raise_def Let_def py_all_in_JObj
      simp del: py_all_in.simps)

text \<open>What one location update does to the store and what it answers.\<close>

lemma update_shipment_location_step:
  assumes "dict_lookup (shipments st) (JStr sid) = Some r"
    and "map_of kvs ''location'' = Some loc"
  shows "update_shipment_location st sid (JObj kvs) now =
    (let status = (case map_of kvs ''status'' of None \<Rightarrow> JStr ''in_transit'' | Some v \<Rightarrow> v);
         r' = r\<lparr>s_current_location := loc, s_status := status,
                s_tracking_history := s_tracking_history r @
                  [\<lparr>t_location = loc, t_status = status, t_timestamp = now,
                    t_notes = Some (case map_of kvs ''notes'' of None \<Rightarrow> JStr [] | Some v \<Rightarrow> v)\<rparr>]\<rparr>
     in (st\<lparr>shipments := dict_set (shipments st) (JStr sid) r'\<rparr>,
         Inr (JObj [(''message'', JStr ''Location updated successfully''),
                    (''shipment'', shipment_json r')], 200)))"
  using assms map_of_Some_nonempty [OF assms(2)]
  by (simp add: update_shipment_location_def reply_def raise_def Let_def put_shipment_def)

text \<open>
  A run of location updates on one shipment appends one entry per call, in the order of
  the calls. The store and the record are generalised: each call changes both.
\<close>

lemma run_location_updates:
  assumes "dict_lookup (shipments st) (JStr sid) = Some r"
    and "\<forall>(loc, kvs, now) \<in> set calls. map_of kvs ''location'' = Some loc"
  shows "\<exists>r'. dict_lookup (shipments (run st
            (map (\<lambda>(loc, kvs, now). UpdateShipmentLocation sid (JObj kvs) now) calls)))
            (JStr sid) = Some r'
          \<and> s_tracking_history r' = s_tracking_history r @
              map (\<lambda>(loc, kvs, now).
                \<lparr>t_location = loc,
                 t_status = (case map_of kvs ''status'' of None \<Rightarrow> JStr ''in_transit'' | Some v \<Rightarrow> v),
                 t_timestamp = now,
                 t_notes = Some (case map_of kvs ''notes'' of None \<Rightarrow> JStr [] | Some v \<Rightarrow> v)\<rparr>)
                calls"
  using assms
proof (induction calls arbitrary: st r)
  case Nil
  then show ?case by simp
next
  case (Cons c calls)
  obtain loc kvs now where c: "c = (loc, kvs, now)"
    by (cases c)
  from Cons.prems c have loc: "map_of kvs ''location'' = Some loc"
    by simp
  let ?status = "case map_of kvs ''status'' of None \<Rightarrow> JStr ''in_transit'' | Some v \<Rightarrow> v"
  let ?e = "\<lparr>t_location = loc, t_status = ?status, t_timestamp = now,
            t_notes = Some (case map_of kvs ''notes'' of None \<Rightarrow> JStr [] | Some v \<Rightarrow> v)\<rparr>"
  let ?r1 = "r\<lparr>s_current_location := loc, s_status := ?status,
              s_tracking_history := s_tracking_history r @ [?e]\<rparr>"
  let ?st1 = "st\<lparr>shipments := dict_set (shipments st) (JStr sid) ?r1\<rparr>"
  have step: "fst (update_shipment_location st sid (JObj kvs) now) = ?st1"
    using update_shipment_location_step [OF Cons.prems(1) loc, of now]
    by (simp add: Let_def)
  have found: "dict_lookup (shipments ?st1) (JStr sid) = Some ?r1"
    by (simp add: dict_lookup_dict_set)
  from Cons.prems(2)
  have rest: "\<forall>(loc, kvs, now) \<in> set calls. map_of kvs ''location'' = Some loc"
    by simp
  from Cons.IH [OF found rest] show ?case
    by (simp add: c step)
qed

text \<open>
  Claim C6. For a request dict with \<^verbatim>\<open>shipment_id\<close>, \<^verbatim>\<open>origin\<close> and
  \<^verbatim>\<open>destination\<close>, whose id is not yet a key of \<^verbatim>\<open>shipments\<close>, \<^verbatim>\<open>create_shipment\<close>
  answers 201 and appends to the store one record, under that id, with status "pending",
  with \<^verbatim>\<open>current_location\<close> equal to the origin, and with a \<^verbatim>\<open>tracking_history\<close> of
  exactly one entry, whose location is the origin and whose status is "pending". For a
  request dict that lacks one of the three fields it answers 400 with a body that lists the
  three field names, and the store is unchanged.
\<close>

theorem create_shipment_contract:
  "(map_of kvs ''shipment_id'' = Some sid \<and> map_of kvs ''origin'' = Some origin
      \<and> map_of kvs ''destination'' = Some dest
      \<and> dict_contains (shipments st) sid = Inr False
    \<longrightarrow> (\<exists>new. create_shipment st (JObj kvs) now now' =
             (st\<lparr>shipments := shipments st @ [(sid, new)]\<rparr>,
              Inr (JObj [(''message'', JStr ''Shipment created successfully''),
                         (''shipment'', shipment_json new)], 201))
          \<and> s_shipment_id new = sid
          \<and> s_status new = JStr ''pending''
          \<and> s_current_location new = origin
          \<and> s_tracking_history new =
              [\<lparr>t_location = origin, t_status = JStr ''pending'',
                t_timestamp = now', t_notes = None\<rparr>]))
   \<and> (map_of kvs ''shipment_id'' = None \<or> map_of kvs ''origin'' = None
        \<or> map_of kvs ''destination'' = None
      \<longrightarrow> create_shipment st (JObj kvs) now now' =
            (st, Inr (JObj [(''error'', JStr ''Missing required fields''),
                            (''required'', JList [JStr ''shipment_id'', JStr ''origin'',
                                                  JStr ''destination''])], 400)))"
proof (intro conjI impI)
  assume h: "map_of kvs ''shipment_id'' = Some sid \<and> map_of kvs ''origin'' = Some origin
      \<and> map_of kvs ''destination'' = Some dest
      \<and> dict_contains (shipments st) sid = Inr False"
  then have absent: "dict_lookup (shipments st) sid = None"
    by (simp add: dict_contains_def split: if_splits)
  from h have "create_shipment st (JObj kvs) now now' =
    (let new = \<lparr>s_shipment_id = sid, s_origin = origin, s_destination = dest,
                s_status = JStr ''pending'', s_current_location = origin,
                s_created_at = now,
                s_estimated_delivery =
                  (case map_of kvs ''estimated_delivery'' of None \<Rightarrow> JNull | Some v \<Rightarrow> v),
                s_tracking_history =
                  [\<lparr>t_location = origin, t_status = JStr ''pending'',
                    t_timestamp = now', t_notes = None\<rparr>]\<rparr>
     in (st\<lparr>shipments := dict_set (shipments st) sid new\<rparr>,
         Inr (JObj [(''message'', JStr ''Shipment created successfully''),
                    (''shipment'', shipment_json new)], 201)))"
    by (intro create_shipment_result) simp_all
  then show "\<exists>new. create_shipment st (JObj kvs) now now' =
             (st\<lparr>shipments := shipments st @ [(sid, new)]\<rparr>,
              Inr (JObj [(''message'', JStr ''Shipment created successfully''),
                         (''shipment'', shipment_json new)], 201))
          \<and> s_shipment_id new = sid
          \<and> s_status new = JStr ''pending''
          \<and> s_current_location new = origin
          \<and> s_tracking_history new =
              [\<lparr>t_location = origin, t_status = JStr ''pending'',
                t_timestamp = now', t_notes = None\<rparr>]"
    by (intro exI [of _ "\<lparr>s_shipment_id = sid, s_origin = origin, s_destination = dest,
                s_status = JStr ''pending'', s_current_location = origin,
                s_created_at = now,
                s_estimated_delivery =
                  (case map_of kvs ''estimated_delivery'' of None \<Rightarrow> JNull | Some v \<Rightarrow> v),
                s_tracking_history =
                  [\<lparr>t_location = origin, t_status = JStr ''pending'',
                    t_timestamp = now', t_notes = None\<rparr>]\<rparr>"])
      (simp add: Let_def dict_set_absent [OF absent])
next
  assume "map_of kvs ''shipment_id'' = None \<or> map_of kvs ''origin'' = None
        \<or> map_of kvs ''destination'' = None"
  from create_shipment_missing [OF this, of st now now']
  show "create_shipment st (JObj kvs) now now' =
            (st, Inr (JObj [(''error'', JStr ''Missing required fields''),
                            (''required'', JList [JStr ''shipment_id'', JStr ''origin'',
                                                  JStr ''destination''])], 400))"
    by (simp add: missing_fields_body_def)
qed

text \<open>
  The payload of the test suite on the empty store, and the payload of
  \<^verbatim>\<open>test_create_shipment_missing_fields\<close>.
\<close>

theorem create_shipment_contract_witness:
  "dict_contains (shipments empty_store) (JStr ''SHP-001'') = Inr False
   \<and> status_code (create_shipment empty_store sample_shipment ''t1'' ''t2'') = 201
   \<and> map_of [(''shipment_id'', JStr ''SHP-002'')] ''origin'' = None
   \<and> create_shipment empty_store (JObj [(''shipment_id'', JStr ''SHP-002'')]) ''t1'' ''t2'' =
       (empty_store,
        Inr (JObj [(''error'', JStr ''Missing required fields''),
                   (''required'', JList [JStr ''shipment_id'', JStr ''origin'',
                                         JStr ''destination''])], 400))"
proof -
  have h: "dict_contains (shipments empty_store) (JStr ''SHP-001'') = Inr False"
    by (simp add: dict_contains_def empty_store_def)
  have m: "map_of [(''shipment_id'', JStr ''SHP-002'')] ''origin'' = None"
    by simp
  from create_shipment_contract
         [of "[(''shipment_id'', JStr ''SHP-001''), (''origin'', JStr ''New York''),
               (''destination'', JStr ''Los Angeles''),
               (''estimated_delivery'', JStr ''2026-02-20'')]"
             "JStr ''SHP-001''" "JStr ''New York''" "JStr ''Los Angeles''" empty_store
             "''t1''" "''t2''"] h
  have a: "status_code (create_shipment empty_store sample_shipment ''t1'' ''t2'') = 201"
    by (auto simp add: sample_shipment_def status_code_def response_of_def)
  from create_shipment_contract
         [of "[(''shipment_id'', JStr ''SHP-002'')]" "JStr ''SHP-002''" JNull JNull empty_store
             "''t1''" "''t2''"] m
  have b: "create_shipment empty_store (JObj [(''shipment_id'', JStr ''SHP-002'')]) ''t1'' ''t2'' =
       (empty_store,
        Inr (JObj [(''error'', JStr ''Missing required fields''),
                   (''required'', JList [JStr ''shipment_id'', JStr ''origin'',
                                         JStr ''destination''])], 400))"
    by simp
  from h m a b show ?thesis by simp
qed

text \<open>
  Claim C7. For a shipment that is stored under the string of the URL, and a request dict
  with the key \<^verbatim>\<open>location\<close>, \<^verbatim>\<open>update_shipment_location\<close> answers 200 with the
  updated record. The record is the stored one with \<^verbatim>\<open>current_location\<close> set to the
  location, \<^verbatim>\<open>status\<close> set to the \<^verbatim>\<open>status\<close> of the request, or to "in_transit"
  when the request has none, and one entry appended to \<^verbatim>\<open>tracking_history\<close>, with the
  new location, the new status and the \<^verbatim>\<open>notes\<close> of the request, or the empty string.
  The other fields of the record and the earlier entries stay as they are (the record is
  given as an update of the old one), every other key of \<^verbatim>\<open>shipments\<close> keeps its
  value, the keys and their order are the same, and \<^verbatim>\<open>orders\<close> and \<^verbatim>\<open>inventory\<close> are
  untouched.
\<close>

theorem update_shipment_location_frame:
  assumes "dict_lookup (shipments st) (JStr sid) = Some r"
    and "map_of kvs ''location'' = Some loc"
  shows "\<exists>st' r' status.
      update_shipment_location st sid (JObj kvs) now =
        (st', Inr (JObj [(''message'', JStr ''Location updated successfully''),
                         (''shipment'', shipment_json r')], 200))
    \<and> status = (case map_of kvs ''status'' of None \<Rightarrow> JStr ''in_transit'' | Some v \<Rightarrow> v)
    \<and> r' = r\<lparr>s_current_location := loc, s_status := status,
              s_tracking_history := s_tracking_history r @
                [\<lparr>t_location = loc, t_status = status, t_timestamp = now,
                  t_notes = Some (case map_of kvs ''notes'' of None \<Rightarrow> JStr [] | Some v \<Rightarrow> v)\<rparr>]\<rparr>
    \<and> dict_lookup (shipments st') (JStr sid) = Some r'
    \<and> (\<forall>k. k \<noteq> JStr sid \<longrightarrow> dict_lookup (shipments st') k = dict_lookup (shipments st) k)
    \<and> map fst (shipments st') = map fst (shipments st)
    \<and> orders st' = orders st
    \<and> inventory st' = inventory st"
proof -
  let ?status = "case map_of kvs ''status'' of None \<Rightarrow> JStr ''in_transit'' | Some v \<Rightarrow> v"
  let ?r' = "r\<lparr>s_current_location := loc, s_status := ?status,
              s_tracking_history := s_tracking_history r @
                [\<lparr>t_location = loc, t_status = ?status, t_timestamp = now,
                  t_notes = Some (case map_of kvs ''notes'' of None \<Rightarrow> JStr [] | Some v \<Rightarrow> v)\<rparr>]\<rparr>"
  let ?st' = "st\<lparr>shipments := dict_set (shipments st) (JStr sid) ?r'\<rparr>"
  have out: "update_shipment_location st sid (JObj kvs) now =
        (?st', Inr (JObj [(''message'', JStr ''Location updated successfully''),
                         (''shipment'', shipment_json ?r')], 200))"
    using update_shipment_location_step [OF assms, of now] by (simp add: Let_def)
  have present: "dict_lookup (shipments st) (JStr sid) \<noteq> None"
    using assms(1) by simp
  have keys: "map fst (shipments ?st') = map fst (shipments st)"
    using keys_dict_set_present [OF present] by simp
  have others: "\<forall>k. k \<noteq> JStr sid \<longrightarrow> dict_lookup (shipments ?st') k = dict_lookup (shipments st) k"
    by (simp add: dict_lookup_dict_set)
  have this_one: "dict_lookup (shipments ?st') (JStr sid) = Some ?r'"
    by (simp add: dict_lookup_dict_set)
  show ?thesis
    by (intro exI [of _ ?st'] exI [of _ ?r'] exI [of _ ?status] conjI out keys others this_one)
      simp_all
qed

text \<open>
  The update of \<^verbatim>\<open>test_update_shipment_location\<close>, on the store that holds the
  shipment of the test suite.
\<close>

theorem update_shipment_location_frame_witness:
  "dict_lookup (shipments (fst (create_shipment empty_store sample_shipment ''t1'' ''t2'')))
      (JStr ''SHP-001'') \<noteq> None
   \<and> map_of [(''location'', JStr ''Chicago''), (''status'', JStr ''in_transit'')] ''location''
       = Some (JStr ''Chicago'')
   \<and> status_code
        (update_shipment_location (fst (create_shipment empty_store sample_shipment ''t1'' ''t2''))
           ''SHP-001'' (JObj [(''location'', JStr ''Chicago''), (''status'', JStr ''in_transit'')])
           ''t3'') = 200
   \<and> orders (fst
        (update_shipment_location (fst (create_shipment empty_store sample_shipment ''t1'' ''t2''))
           ''SHP-001'' (JObj [(''location'', JStr ''Chicago''), (''status'', JStr ''in_transit'')])
           ''t3'')) = []"
proof -
  let ?st = "fst (create_shipment empty_store sample_shipment ''t1'' ''t2'')"
  let ?r = "\<lparr>s_shipment_id = JStr ''SHP-001'', s_origin = JStr ''New York'',
             s_destination = JStr ''Los Angeles'', s_status = JStr ''pending'',
             s_current_location = JStr ''New York'', s_created_at = ''t1'',
             s_estimated_delivery = JStr ''2026-02-20'',
             s_tracking_history =
               [\<lparr>t_location = JStr ''New York'', t_status = JStr ''pending'',
                 t_timestamp = ''t2'', t_notes = None\<rparr>]\<rparr>"
  have st: "?st = \<lparr>shipments = [(JStr ''SHP-001'', ?r)], inventory = [], orders = []\<rparr>"
    by (simp add: create_shipment_def sample_shipment_def empty_store_def reply_def raise_def
        dict_contains_def Let_def)
  have h1: "dict_lookup (shipments ?st) (JStr ''SHP-001'') = Some ?r"
    by (simp add: st)
  have h2: "map_of [(''location'', JStr ''Chicago''), (''status'', JStr ''in_transit'')]
      ''location'' = Some (JStr ''Chicago'')"
    by simp
  from update_shipment_location_frame [OF h1 h2, of "''t3''"] h1 h2 show ?thesis
    by (auto simp add: status_code_def response_of_def st)
qed

text \<open>
  Claim C2. A shipment is created by \<^verbatim>\<open>create_shipment\<close> under a string id, and then
  \<^verbatim>\<open>update_shipment_location\<close> is called on that id once for each element of
  \<open>calls\<close>, each time with a request dict that has the key \<^verbatim>\<open>location\<close>. The
  \<^verbatim>\<open>tracking_history\<close> of the stored shipment then has one entry more than there were
  calls: the entry of the creation first, then the entry of each call, in the order of the
  calls, none dropped and none merged.
\<close>

theorem tracking_history_call_order:
  assumes "map_of kvs0 ''shipment_id'' = Some (JStr sid)"
    and "map_of kvs0 ''origin'' = Some origin"
    and "map_of kvs0 ''destination'' = Some dest"
    and "dict_contains (shipments st) (JStr sid) = Inr False"
    and "\<forall>(loc, kvs, now) \<in> set calls. map_of kvs ''location'' = Some loc"
  shows "\<exists>r. dict_lookup
           (shipments
             (run (fst (create_shipment st (JObj kvs0) now0 now0'))
                  (map (\<lambda>(loc, kvs, now). UpdateShipmentLocation sid (JObj kvs) now) calls)))
           (JStr sid) = Some r
       \<and> length (s_tracking_history r) = length calls + 1
       \<and> s_tracking_history r =
           \<lparr>t_location = origin, t_status = JStr ''pending'', t_timestamp = now0',
            t_notes = None\<rparr>
           # map (\<lambda>(loc, kvs, now).
                \<lparr>t_location = loc,
                 t_status = (case map_of kvs ''status'' of None \<Rightarrow> JStr ''in_transit'' | Some v \<Rightarrow> v),
                 t_timestamp = now,
                 t_notes = Some (case map_of kvs ''notes'' of None \<Rightarrow> JStr [] | Some v \<Rightarrow> v)\<rparr>)
                calls"
proof -
  let ?new = "\<lparr>s_shipment_id = JStr sid, s_origin = origin, s_destination = dest,
                s_status = JStr ''pending'', s_current_location = origin,
                s_created_at = now0,
                s_estimated_delivery =
                  (case map_of kvs0 ''estimated_delivery'' of None \<Rightarrow> JNull | Some v \<Rightarrow> v),
                s_tracking_history =
                  [\<lparr>t_location = origin, t_status = JStr ''pending'',
                    t_timestamp = now0', t_notes = None\<rparr>]\<rparr>"
  let ?st0 = "fst (create_shipment st (JObj kvs0) now0 now0')"
  have st0: "?st0 = st\<lparr>shipments := dict_set (shipments st) (JStr sid) ?new\<rparr>"
    using create_shipment_result [OF assms(1-4), of now0 now0'] by (simp add: Let_def)
  have found: "dict_lookup (shipments ?st0) (JStr sid) = Some ?new"
    by (simp add: st0 dict_lookup_dict_set)
  from run_location_updates [OF found assms(5)]
  obtain r where r: "dict_lookup
           (shipments (run ?st0
              (map (\<lambda>(loc, kvs, now). UpdateShipmentLocation sid (JObj kvs) now) calls)))
           (JStr sid) = Some r"
    and h: "s_tracking_history r = s_tracking_history ?new @
              map (\<lambda>(loc, kvs, now).
                \<lparr>t_location = loc,
                 t_status = (case map_of kvs ''status'' of None \<Rightarrow> JStr ''in_transit'' | Some v \<Rightarrow> v),
                 t_timestamp = now,
                 t_notes = Some (case map_of kvs ''notes'' of None \<Rightarrow> JStr [] | Some v \<Rightarrow> v)\<rparr>)
                calls"
    by blast
  from h have len: "length (s_tracking_history r) = length calls + 1"
    by simp
  from r h len show ?thesis
    by (intro exI [of _ r]) simp
qed

text \<open>
  Two updates after the creation: three entries, stamped with the clock readings of the
  creation and of the two calls, in that order.
\<close>

theorem tracking_history_call_order_witness:
  "dict_contains (shipments empty_store) (JStr ''SHP-001'') = Inr False
   \<and> (\<exists>r. dict_lookup
          (shipments
            (run (fst (create_shipment empty_store sample_shipment ''t1'' ''t2''))
               [UpdateShipmentLocation ''SHP-001'' (JObj [(''location'', JStr ''Chicago'')]) ''t3'',
                UpdateShipmentLocation ''SHP-001''
                  (JObj [(''location'', JStr ''Denver''), (''status'', JStr ''delayed'')]) ''t4'']))
          (JStr ''SHP-001'') = Some r
        \<and> map t_timestamp (s_tracking_history r) = [''t2'', ''t3'', ''t4'']
        \<and> map t_location (s_tracking_history r)
            = [JStr ''New York'', JStr ''Chicago'', JStr ''Denver''])"
proof -
  let ?kvs0 = "[(''shipment_id'', JStr ''SHP-001''), (''origin'', JStr ''New York''),
               (''destination'', JStr ''Los Angeles''),
               (''estimated_delivery'', JStr ''2026-02-20'')]"
  let ?calls = "[(JStr ''Chicago'', [(''location'', JStr ''Chicago'')], ''t3''),
           (JStr ''Denver'', [(''location'', JStr ''Denver''), (''status'', JStr ''delayed'')], ''t4'')]"
  have h1: "map_of ?kvs0 ''shipment_id'' = Some (JStr ''SHP-001'')" by simp
  have h2: "map_of ?kvs0 ''origin'' = Some (JStr ''New York'')" by simp
  have h3: "map_of ?kvs0 ''destination'' = Some (JStr ''Los Angeles'')" by simp
  have h4: "dict_contains (shipments empty_store) (JStr ''SHP-001'') = Inr False"
    by (simp add: dict_contains_def empty_store_def)
  have h5: "\<forall>(loc, kvs, now) \<in> set ?calls. map_of kvs ''location'' = Some loc"
    by simp
  from tracking_history_call_order [OF h1 h2 h3 h4 h5, of "''t1''" "''t2''"] h4
  show ?thesis
    by (auto simp add: sample_shipment_def)
qed

text \<open>
  Claim C8, as stated, fails for a filter that is provided and empty
  (\<^verbatim>\<open>GET /shipments?status=\<close>): \<^verbatim>\<open>if status_filter:\<close> is false for the empty string,
  so the handler lists every shipment. On the store that holds the one pending shipment of
  the test suite, the answer to the empty filter has count 1 and lists that shipment, while
  no shipment has the status \<^verbatim>\<open>""\<close>.
\<close>

theorem list_shipments_empty_filter_counterexample:
  "snd (list_shipments (fst (create_shipment empty_store sample_shipment ''t1'' ''t2'')) (Some ''''))
     = Inr (JObj [(''count'', JInt 1),
                  (''shipments'', JList
                     [shipment_json
                        \<lparr>s_shipment_id = JStr ''SHP-001'', s_origin = JStr ''New York'',
                         s_destination = JStr ''Los Angeles'', s_status = JStr ''pending'',
                         s_current_location = JStr ''New York'', s_created_at = ''t1'',
                         s_estimated_delivery = JStr ''2026-02-20'',
                         s_tracking_history =
                           [\<lparr>t_location = JStr ''New York'', t_status = JStr ''pending'',
                             t_timestamp = ''t2'', t_notes = None\<rparr>]\<rparr>])], 200)
   \<and> filter (\<lambda>s. s_status s = JStr '''')
        (dict_values (shipments (fst (create_shipment empty_store sample_shipment ''t1'' ''t2''))))
     = []"
  by (simp add: list_shipments_def create_shipment_def sample_shipment_def empty_store_def
      reply_def raise_def dict_contains_def dict_values_def Let_def)

text \<open>
  Claim C8, amended. Without a status filter, or with the empty string as filter,
  \<^verbatim>\<open>list_shipments\<close> answers 200 with all shipments, in insertion order; with a
  non-empty filter it answers 200 with exactly the shipments whose status equals the filter,
  in the same order. In both cases \<^verbatim>\<open>count\<close> is the length of the list returned, and
  the store is unchanged.
\<close>

theorem list_shipments_filter:
  "(status_filter = None \<or> status_filter = Some [] \<longrightarrow>
      list_shipments st status_filter =
        (st, Inr (JObj [(''count'', JInt (int (length (dict_values (shipments st))))),
                        (''shipments'', JList (map shipment_json (dict_values (shipments st))))],
                  200)))
   \<and> (status_filter = Some f \<and> f \<noteq> [] \<longrightarrow>
      list_shipments st status_filter =
        (st, Inr (JObj [(''count'', JInt (int (length
                           (filter (\<lambda>s. s_status s = JStr f) (dict_values (shipments st)))))),
                        (''shipments'', JList (map shipment_json
                           (filter (\<lambda>s. s_status s = JStr f) (dict_values (shipments st)))))],
                  200)))"
  by (auto simp add: list_shipments_def reply_def Let_def)

theorem list_shipments_filter_witness:
  "snd (list_shipments (fst (create_shipment empty_store sample_shipment ''t1'' ''t2''))
          (Some ''delivered''))
     = Inr (JObj [(''count'', JInt 0), (''shipments'', JList [])], 200)
   \<and> status_code (list_shipments (fst (create_shipment empty_store sample_shipment ''t1'' ''t2''))
          None) = 200"
proof -
  let ?st = "fst (create_shipment empty_store sample_shipment ''t1'' ''t2'')"
  have vals: "dict_values (shipments ?st) =
      [\<lparr>s_shipment_id = JStr ''SHP-001'', s_origin = JStr ''New York'',
         s_destination = JStr ''Los Angeles'', s_status = JStr ''pending'',
         s_current_location = JStr ''New York'', s_created_at = ''t1'',
         s_estimated_delivery = JStr ''2026-02-20'',
         s_tracking_history =
           [\<lparr>t_location = JStr ''New York'', t_status = JStr ''pending'',
             t_timestamp = ''t2'', t_notes = None\<rparr>]\<rparr>]"
    by (simp add: create_shipment_def sample_shipment_def empty_store_def
      reply_def raise_def dict_contains_def dict_values_def Let_def)
  have f: "Some ''delivered'' = Some ''delivered'' \<and> ''delivered'' \<noteq> []"
    by simp
  from list_shipments_filter [of "Some ''delivered''" ?st "''delivered''"] f
  have a: "snd (list_shipments ?st (Some ''delivered''))
     = Inr (JObj [(''count'', JInt 0), (''shipments'', JList [])], 200)"
    by (simp add: vals)
  from list_shipments_filter [of None ?st "''x''"]
  have b: "status_code (list_shipments ?st None) = 200"
    by (simp add: status_code_def response_of_def)
  from a b show ?thesis by simp
qed

section \<open>Inventory\<close>

text \<open>A quantity that leaves the \<^verbatim>\<open>try\<close> block has passed the test \<^verbatim>\<open>quantity < 0\<close>.\<close>

lemma parse_quantity_Parsed: "parse_quantity data = Parsed q \<Longrightarrow> 0 \<le> q"
  by (auto simp add: parse_quantity_def caught_def split: sum.splits if_splits)

lemma quantities_dict_set:
  "\<forall>it \<in> set (dict_values d). 0 \<le> i_quantity it \<Longrightarrow> 0 \<le> i_quantity w
   \<Longrightarrow> \<forall>it \<in> set (dict_values (dict_set d k w)). 0 \<le> i_quantity it"
  by (auto simp add: dict_values_def dest!: set_dict_set)

lemma add_inventory_item_store:
  assumes "P st"
    and "\<And>k it. 0 \<le> i_quantity it \<Longrightarrow> P (st\<lparr>inventory := dict_set (inventory st) k it\<rparr>)"
  shows "P (fst (add_inventory_item st data now))"
proof (cases "parse_quantity data")
  case (Parsed q)
  then have "0 \<le> q" by (rule parse_quantity_Parsed)
  with assms Parsed show ?thesis
    by (simp add: add_inventory_item_def reply_def raise_def Let_def
        split: sum.split bool.split del: py_all_in.simps)
qed (use assms(1) in \<open>simp_all add: add_inventory_item_def reply_def raise_def Let_def
        split: sum.split bool.split del: py_all_in.simps\<close>)

lemma update_stock_store:
  assumes "P st"
    and "\<And>k it. 0 \<le> i_quantity it \<Longrightarrow> P (st\<lparr>inventory := dict_set (inventory st) k it\<rparr>)"
  shows "P (fst (update_stock st item_id data now))"
proof (cases "parse_quantity data")
  case (Parsed q)
  then have "0 \<le> q" by (rule parse_quantity_Parsed)
  with assms Parsed show ?thesis
    by (simp add: update_stock_def reply_def raise_def Let_def
        split: option.split sum.split bool.split)
qed (use assms(1) in \<open>simp_all add: update_stock_def reply_def raise_def Let_def
        split: option.split sum.split bool.split\<close>)

lemma add_inventory_item_inventory:
  assumes "\<forall>it \<in> set (dict_values (inventory st)). 0 \<le> i_quantity it"
  shows "\<forall>it \<in> set (dict_values (inventory (fst (add_inventory_item st data now)))). 0 \<le> i_quantity it"
proof (rule add_inventory_item_store)
  show "\<forall>it \<in> set (dict_values (inventory st)). 0 \<le> i_quantity it"
    by (rule assms)
next
  fix k and w :: item
  assume "0 \<le> i_quantity w"
  with assms
  have "\<forall>it \<in> set (dict_values (dict_set (inventory st) k w)). 0 \<le> i_quantity it"
    by (rule quantities_dict_set)
  then show "\<forall>it \<in> set (dict_values
      (inventory (st\<lparr>inventory := dict_set (inventory st) k w\<rparr>))). 0 \<le> i_quantity it"
    by simp
qed

lemma update_stock_inventory:
  assumes "\<forall>it \<in> set (dict_values (inventory st)). 0 \<le> i_quantity it"
  shows "\<forall>it \<in> set (dict_values (inventory (fst (update_stock st item_id data now)))). 0 \<le> i_quantity it"
proof (rule update_stock_store)
  show "\<forall>it \<in> set (dict_values (inventory st)). 0 \<le> i_quantity it"
    by (rule assms)
next
  fix k and w :: item
  assume "0 \<le> i_quantity w"
  with assms
  have "\<forall>it \<in> set (dict_values (dict_set (inventory st) k w)). 0 \<le> i_quantity it"
    by (rule quantities_dict_set)
  then show "\<forall>it \<in> set (dict_values
      (inventory (st\<lparr>inventory := dict_set (inventory st) k w\<rparr>))). 0 \<le> i_quantity it"
    by simp
qed

lemma create_order_inventory: "inventory (fst (create_order st data now)) = inventory st"
  by (simp add: create_order_def reply_def raise_def Let_def
      split: sum.split bool.split)

lemma create_shipment_inventory:
  "inventory (fst (create_shipment st data now now')) = inventory st"
  by (simp add: create_shipment_def reply_def raise_def Let_def
      split: sum.split bool.split del: py_all_in.simps)

lemma update_shipment_location_inventory:
  "inventory (fst (update_shipment_location st sid data now)) = inventory st"
  by (simp add: update_shipment_location_def reply_def raise_def Let_def put_shipment_def
      split: option.split sum.split bool.split)

lemma optimize_route_store: "fst (optimize_route st data) = st"
  by (simp add: optimize_route_def reply_def raise_def Let_def
      split: sum.split bool.split json.split del: py_all_in.simps)

lemma handle_inventory:
  assumes "\<forall>it \<in> set (dict_values (inventory st)). 0 \<le> i_quantity it"
  shows "\<forall>it \<in> set (dict_values (inventory (fst (handle st r)))). 0 \<le> i_quantity it"
proof (cases r)
  case (AddInventoryItem data now)
  with add_inventory_item_inventory [OF assms] show ?thesis by simp
next
  case (UpdateStock item_id data now)
  with update_stock_inventory [OF assms] show ?thesis by simp
qed (use assms in \<open>simp_all add: create_order_inventory create_shipment_inventory
    update_shipment_location_inventory optimize_route_store
    get_order_def get_shipment_def list_shipments_def get_inventory_def get_inventory_item_def
    reply_def Let_def split: option.split\<close>)

lemma run_inventory:
  assumes "\<forall>it \<in> set (dict_values (inventory st)). 0 \<le> i_quantity it"
  shows "\<forall>it \<in> set (dict_values (inventory (run st rs))). 0 \<le> i_quantity it"
  using assms
proof (induction rs arbitrary: st)
  case Nil
  then show ?case by simp
next
  case (Cons r rs)
  from Cons.IH [OF handle_inventory [OF Cons.prems]] show ?case by simp
qed

text \<open>
  Claim C1. Start from the empty store and serve any sequence of requests, whatever their
  bodies: calls of \<^verbatim>\<open>add_inventory_item\<close> and \<^verbatim>\<open>update_stock\<close>, and calls of the
  other handlers as well, which do not write to \<^verbatim>\<open>inventory\<close>. Every item in the
  inventory then has a quantity that is at least zero.
\<close>

theorem stored_quantity_nonnegative:
  "\<forall>it \<in> set (dict_values (inventory (run empty_store rs))). 0 \<le> i_quantity it"
  by (rule run_inventory) (simp add: empty_store_def dict_values_def)

text \<open>
  The item of the test suite is added, an update to -5 is refused, and the item is found in
  the inventory with its quantity of 100.
\<close>

theorem stored_quantity_nonnegative_witness:
  "\<lparr>i_item_id = JStr ''ITM-001'', i_name = JStr ''Widget'', i_quantity = 100,
    i_location = JStr ''Warehouse A'', i_category = JStr ''Electronics'',
    i_last_updated = ''t1''\<rparr>
     \<in> set (dict_values (inventory (run empty_store
          [AddInventoryItem sample_inventory ''t1'',
           UpdateStock ''ITM-001'' (JObj [(''quantity'', JInt (- 5))]) ''t2''])))
   \<and> 0 \<le> i_quantity
        \<lparr>i_item_id = JStr ''ITM-001'', i_name = JStr ''Widget'', i_quantity = 100,
         i_location = JStr ''Warehouse A'', i_category = JStr ''Electronics'',
         i_last_updated = ''t1''\<rparr>"
proof -
  let ?rs = "[AddInventoryItem sample_inventory ''t1'',
           UpdateStock ''ITM-001'' (JObj [(''quantity'', JInt (- 5))]) ''t2'']"
  let ?it = "\<lparr>i_item_id = JStr ''ITM-001'', i_name = JStr ''Widget'', i_quantity = 100,
    i_location = JStr ''Warehouse A'', i_category = JStr ''Electronics'',
    i_last_updated = ''t1''\<rparr>"
  have add: "fst (add_inventory_item empty_store sample_inventory ''t1'') =
      \<lparr>shipments = [], inventory = [(JStr ''ITM-001'', ?it)], orders = []\<rparr>"
    by (simp add: add_inventory_item_def sample_inventory_def empty_store_def reply_def
        raise_def dict_contains_def parse_quantity_def Let_def)
  have upd: "fst (update_stock
        \<lparr>shipments = [], inventory = [(JStr ''ITM-001'', ?it)], orders = []\<rparr>
        ''ITM-001'' (JObj [(''quantity'', JInt (- 5))]) ''t2'') =
      \<lparr>shipments = [], inventory = [(JStr ''ITM-001'', ?it)], orders = []\<rparr>"
    by (simp add: update_stock_def reply_def raise_def parse_quantity_def)
  have mem: "?it \<in> set (dict_values (inventory (run empty_store ?rs)))"
    by (simp add: add upd dict_values_def)
  from stored_quantity_nonnegative [of ?rs] mem show ?thesis
    by blast
qed

text \<open>
  The exceptions of \<^verbatim>\<open>int()\<close>: \<^verbatim>\<open>OverflowError\<close> is raised for the two infinite
  floats and for nothing else.
\<close>

lemma py_int_raises:
  assumes "py_int q = Inl e"
  shows "e = ValueError \<or> e = TypeError
       \<or> (e = OverflowError \<and> (q = JFloat PosInf \<or> q = JFloat NegInf))"
proof (cases q)
  case (JFloat f)
  with assms show ?thesis
    by (cases f) auto
next
  case (JStr s)
  with assms show ?thesis
    by (auto simp add: int_of_str_def Let_def split: if_splits)
qed (use assms in auto)

lemma parse_quantity_JObj:
  assumes "map_of kvs ''quantity'' = Some q"
  shows "parse_quantity (JObj kvs) =
     (case py_int q of
        Inl e \<Rightarrow> if e = OverflowError then Uncaught e else Invalid
      | Inr n \<Rightarrow> if n < 0 then Negative else Parsed n)"
  using assms py_int_raises [of q]
  by (auto simp add: parse_quantity_def caught_def split: sum.split)

text \<open>
  What \<^verbatim>\<open>update_stock\<close> does for an item that exists, by the quantity of the request
  dict: absent, refused by \<^verbatim>\<open>int()\<close> with one of the two exceptions that the handler
  catches, negative, accepted, or refused by \<^verbatim>\<open>int()\<close> with \<^verbatim>\<open>OverflowError\<close>.
\<close>

lemma update_stock_contract:
  assumes "dict_lookup (inventory st) (JStr item_id) = Some stored"
  shows "(map_of kvs ''quantity'' = None \<longrightarrow>
            update_stock st item_id (JObj kvs) now =
              (st, Inr (error_body ''Quantity is required'', 400)))
       \<and> (map_of kvs ''quantity'' = Some q \<and> (py_int q = Inl ValueError \<or> py_int q = Inl TypeError) \<longrightarrow>
            update_stock st item_id (JObj kvs) now =
              (st, Inr (error_body ''Quantity must be a valid integer'', 400)))
       \<and> (map_of kvs ''quantity'' = Some q \<and> py_int q = Inr n \<and> n < 0 \<longrightarrow>
            update_stock st item_id (JObj kvs) now =
              (st, Inr (error_body ''Quantity must be non-negative'', 400)))
       \<and> (map_of kvs ''quantity'' = Some q \<and> py_int q = Inr n \<and> 0 \<le> n \<longrightarrow>
            update_stock st item_id (JObj kvs) now =
              (st\<lparr>inventory := dict_set (inventory st) (JStr item_id)
                     (stored\<lparr>i_quantity := n, i_last_updated := now\<rparr>)\<rparr>,
               Inr (JObj [(''message'', JStr ''Stock updated successfully''),
                          (''item'', item_json (stored\<lparr>i_quantity := n, i_last_updated := now\<rparr>))],
                    200)))
       \<and> (map_of kvs ''quantity'' = Some q \<and> py_int q = Inl OverflowError \<longrightarrow>
            update_stock st item_id (JObj kvs) now = (st, Inl OverflowError))"
proof (intro conjI impI)
  assume "map_of kvs ''quantity'' = None"
  with assms show "update_stock st item_id (JObj kvs) now =
              (st, Inr (error_body ''Quantity is required'', 400))"
    by (simp add: update_stock_def reply_def)
next
  assume h: "map_of kvs ''quantity'' = Some q \<and> (py_int q = Inl ValueError \<or> py_int q = Inl TypeError)"
  then have "kvs \<noteq> []" by auto
  with h assms parse_quantity_JObj [of kvs q]
  show "update_stock st item_id (JObj kvs) now =
              (st, Inr (error_body ''Quantity must be a valid integer'', 400))"
    by (auto simp add: update_stock_def reply_def)
next
  assume h: "map_of kvs ''quantity'' = Some q \<and> py_int q = Inr n \<and> n < 0"
  then have "kvs \<noteq> []" by auto
  with h assms parse_quantity_JObj [of kvs q]
  show "update_stock st item_id (JObj kvs) now =
              (st, Inr (error_body ''Quantity must be non-negative'', 400))"
    by (simp add: update_stock_def reply_def)
next
  assume h: "map_of kvs ''quantity'' = Some q \<and> py_int q = Inr n \<and> 0 \<le> n"
  then have "kvs \<noteq> []" by auto
  with h assms parse_quantity_JObj [of kvs q]
  show "update_stock st item_id (JObj kvs) now =
              (st\<lparr>inventory := dict_set (inventory st) (JStr item_id)
                     (stored\<lparr>i_quantity := n, i_last_updated := now\<rparr>)\<rparr>,
               Inr (JObj [(''message'', JStr ''Stock updated successfully''),
                          (''item'', item_json (stored\<lparr>i_quantity := n, i_last_updated := now\<rparr>))],
                    200))"
    by (simp add: update_stock_def reply_def Let_def)
next
  assume h: "map_of kvs ''quantity'' = Some q \<and> py_int q = Inl OverflowError"
  then have "kvs \<noteq> []" by auto
  with h assms parse_quantity_JObj [of kvs q]
  show "update_stock st item_id (JObj kvs) now = (st, Inl OverflowError)"
    by (simp add: update_stock_def raise_def)
qed

text \<open>The same for \<^verbatim>\<open>add_inventory_item\<close>, for a request dict with the three fields
  and an id that is not yet a key.\<close>

lemma add_inventory_item_contract:
  assumes "map_of kvs ''item_id'' = Some item_id"
    and "map_of kvs ''name'' = Some name"
    and "map_of kvs ''quantity'' = Some q"
    and "dict_contains (inventory st) item_id = Inr False"
  shows "(py_int q = Inr n \<and> 0 \<le> n \<longrightarrow>
            add_inventory_item st (JObj kvs) now =
              (let new_item =
                 \<lparr>i_item_id = item_id, i_name = name, i_quantity = n,
                  i_location = (case map_of kvs ''location'' of None \<Rightarrow> JStr ''Warehouse'' | Some v \<Rightarrow> v),
                  i_category = (case map_of kvs ''category'' of None \<Rightarrow> JStr ''General'' | Some v \<Rightarrow> v),
                  i_last_updated = now\<rparr>
               in (st\<lparr>inventory := dict_set (inventory st) item_id new_item\<rparr>,
                   Inr (JObj [(''message'', JStr ''Inventory item added successfully''),
                              (''item'', item_json new_item)], 201))))
       \<and> (py_int q = Inr n \<and> n < 0 \<longrightarrow>
            add_inventory_item st (JObj kvs) now =
              (st, Inr (error_body ''Quantity must be non-negative'', 400)))
       \<and> (py_int q = Inl ValueError \<or> py_int q = Inl TypeError \<longrightarrow>
            add_inventory_item st (JObj kvs) now =
              (st, Inr (error_body ''Quantity must be a valid integer'', 400)))
       \<and> (py_int q = Inl OverflowError \<longrightarrow>
            add_inventory_item st (JObj kvs) now = (st, Inl OverflowError))"
proof -
  have ne: "kvs \<noteq> []"
    using assms(1) by (rule map_of_Some_nonempty)
  note pq = parse_quantity_JObj [OF assms(3)]
  show ?thesis
    using assms ne
    by (auto simp add: add_inventory_item_def reply_def raise_def Let_def py_all_in_JObj pq
        simp del: py_all_in.simps)
qed

text \<open>
  \<^verbatim>\<open>int()\<close> on some quantities a request can carry: the floats 3.7 and -0.5, \<^verbatim>\<open>True\<close>,
  the string "3.7", \<^verbatim>\<open>None\<close>, and the float that \<^verbatim>\<open>json.loads\<close> makes of
  \<^verbatim>\<open>1e999\<close>.
\<close>

lemma int_conversion_examples:
  "py_int (JFloat (Finite (37 / 10))) = Inr 3"
  "py_int (JFloat (Finite (- 1 / 2))) = Inr 0"
  "py_int (JBool True) = Inr 1"
  "py_int (JStr ''3.7'') = Inl ValueError"
  "py_int JNull = Inl TypeError"
  "py_int (JFloat PosInf) = Inl OverflowError"
  by (simp_all add: int_of_str_def is_space_def is_digit_def floor_eq_iff ceiling_eq_iff)

text \<open>
  Claim C4 says that \<^verbatim>\<open>update_stock\<close> answers 400 whenever the quantity is not
  integer-parseable. The handler catches \<^verbatim>\<open>ValueError\<close> and \<^verbatim>\<open>TypeError\<close> only: for
  the item of the test suite and the body \<^verbatim>\<open>{"quantity": 1e999}\<close>, whose quantity
  \<^verbatim>\<open>json.loads\<close> reads as the float infinity, \<^verbatim>\<open>int()\<close> raises \<^verbatim>\<open>OverflowError\<close>,
  the exception leaves the handler, and the client gets 500. The stored item is unchanged.
\<close>

theorem update_stock_infinite_quantity:
  "update_stock (fst (add_inventory_item empty_store sample_inventory ''t1''))
       ''ITM-001'' (JObj [(''quantity'', JFloat PosInf)]) ''t2''
     = (fst (add_inventory_item empty_store sample_inventory ''t1''), Inl OverflowError)
   \<and> status_code (update_stock (fst (add_inventory_item empty_store sample_inventory ''t1''))
       ''ITM-001'' (JObj [(''quantity'', JFloat PosInf)]) ''t2'') = 500"
proof -
  have add: "fst (add_inventory_item empty_store sample_inventory ''t1'') =
      \<lparr>shipments = [],
       inventory = [(JStr ''ITM-001'',
         \<lparr>i_item_id = JStr ''ITM-001'', i_name = JStr ''Widget'', i_quantity = 100,
          i_location = JStr ''Warehouse A'', i_category = JStr ''Electronics'',
          i_last_updated = ''t1''\<rparr>)],
       orders = []\<rparr>"
    by (simp add: add_inventory_item_def sample_inventory_def empty_store_def reply_def
        raise_def dict_contains_def parse_quantity_def Let_def)
  show ?thesis
    by (simp add: add update_stock_def reply_def raise_def parse_quantity_def caught_def
        status_code_def response_of_def internal_error_def)
qed

text \<open>
  Claim C10 says that the 400 "Quantity must be a valid integer" is returned exactly when
  \<^verbatim>\<open>int()\<close> raises. For the float infinity \<^verbatim>\<open>int()\<close> raises \<^verbatim>\<open>OverflowError\<close>, which
  \<^verbatim>\<open>add_inventory_item\<close> does not catch: the request
  \<^verbatim>\<open>{"item_id": "ITM-002", "name": "Widget", "quantity": 1e999}\<close> ends in the
  \<^verbatim>\<open>errorhandler(500)\<close>, and nothing is stored.
\<close>

theorem add_inventory_item_infinite_quantity:
  "py_int (JFloat PosInf) = Inl OverflowError
   \<and> add_inventory_item empty_store
        (JObj [(''item_id'', JStr ''ITM-002''), (''name'', JStr ''Widget''),
               (''quantity'', JFloat PosInf)]) ''t1''
       = (empty_store, Inl OverflowError)
   \<and> response_of (add_inventory_item empty_store
        (JObj [(''item_id'', JStr ''ITM-002''), (''name'', JStr ''Widget''),
               (''quantity'', JFloat PosInf)]) ''t1'')
       = (JObj [(''error'', JStr ''Internal server error'')], 500)"
  by (simp add: add_inventory_item_def empty_store_def reply_def raise_def dict_contains_def
      parse_quantity_def caught_def response_of_def internal_error_def error_body_def Let_def)

section \<open>Routes\<close>

text \<open>
  Claim C3. For a request dict with \<^verbatim>\<open>start\<close>, \<^verbatim>\<open>waypoints\<close> and \<^verbatim>\<open>end\<close> whose
  \<^verbatim>\<open>waypoints\<close> is a list, \<^verbatim>\<open>optimize_route\<close> answers 200 with \<^verbatim>\<open>total_stops\<close>
  equal to the length of the list plus one, \<^verbatim>\<open>estimated_time_minutes\<close> equal to thirty
  times that, \<^verbatim>\<open>optimized\<close> true, \<^verbatim>\<open>route_efficiency\<close> "optimal", and the three
  inputs echoed. For a request dict whose \<^verbatim>\<open>waypoints\<close> is present and not a list it
  answers 400. For every request and every store, the store is returned as it was, and the
  answer is the same whatever the store holds: the handler neither reads nor writes a
  collection, and its answer depends on the request alone.
\<close>

theorem optimize_route_contract:
  "(map_of kvs ''start'' = Some start \<and> map_of kvs ''end'' = Some end'
      \<and> map_of kvs ''waypoints'' = Some (JList waypoints)
    \<longrightarrow> optimize_route st (JObj kvs) =
        (st, Inr (JObj [(''message'', JStr ''Route optimized successfully''),
                        (''route'', JObj
                           [(''start'', start),
                            (''waypoints'', JList waypoints),
                            (''end'', end'),
                            (''total_stops'', JInt (int (length waypoints) + 1)),
                            (''estimated_time_minutes'', JInt ((int (length waypoints) + 1) * 30)),
                            (''optimized'', JBool True),
                            (''route_efficiency'', JStr ''optimal'')])], 200)))
   \<and> (map_of kvs ''waypoints'' = Some w \<and> (case w of JList ws \<Rightarrow> False | _ \<Rightarrow> True)
    \<longrightarrow> status_code (optimize_route st (JObj kvs)) = 400)
   \<and> fst (optimize_route st data) = st
   \<and> snd (optimize_route st data) = snd (optimize_route st' data)"
proof (intro conjI impI)
  assume h: "map_of kvs ''start'' = Some start \<and> map_of kvs ''end'' = Some end'
      \<and> map_of kvs ''waypoints'' = Some (JList waypoints)"
  then have "kvs \<noteq> []"
    by auto
  with h show "optimize_route st (JObj kvs) =
        (st, Inr (JObj [(''message'', JStr ''Route optimized successfully''),
                        (''route'', JObj
                           [(''start'', start),
                            (''waypoints'', JList waypoints),
                            (''end'', end'),
                            (''total_stops'', JInt (int (length waypoints) + 1)),
                            (''estimated_time_minutes'', JInt ((int (length waypoints) + 1) * 30)),
                            (''optimized'', JBool True),
                            (''route_efficiency'', JStr ''optimal'')])], 200))"
    by (simp add: optimize_route_def reply_def raise_def Let_def py_all_in_JObj
        del: py_all_in.simps)
next
  assume h: "map_of kvs ''waypoints'' = Some w \<and> (case w of JList ws \<Rightarrow> False | _ \<Rightarrow> True)"
  then have "kvs \<noteq> []"
    by auto
  with h show "status_code (optimize_route st (JObj kvs)) = 400"
    by (cases w)
      (simp_all add: optimize_route_def reply_def raise_def Let_def py_all_in_JObj
        status_code_def response_of_def split: bool.split del: py_all_in.simps)
next
  show "fst (optimize_route st data) = st"
    by (simp add: optimize_route_def reply_def raise_def Let_def
        split: sum.split bool.split json.split del: py_all_in.simps)
next
  show "snd (optimize_route st data) = snd (optimize_route st' data)"
    by (simp add: optimize_route_def reply_def raise_def Let_def
        split: sum.split bool.split json.split del: py_all_in.simps)
qed

text \<open>
  The routes of \<^verbatim>\<open>test_optimize_route_success\<close> and
  \<^verbatim>\<open>test_optimize_route_invalid_waypoints\<close>.
\<close>

theorem optimize_route_contract_witness:
  "snd (optimize_route empty_store
      (JObj [(''start'', JStr ''New York''),
             (''waypoints'', JList [JStr ''Philadelphia'', JStr ''Baltimore'', JStr ''Washington DC'']),
             (''end'', JStr ''Atlanta'')]))
     = Inr (JObj [(''message'', JStr ''Route optimized successfully''),
                  (''route'', JObj
                     [(''start'', JStr ''New York''),
                      (''waypoints'', JList [JStr ''Philadelphia'', JStr ''Baltimore'',
                                             JStr ''Washington DC'']),
                      (''end'', JStr ''Atlanta''),
                      (''total_stops'', JInt 4),
                      (''estimated_time_minutes'', JInt 120),
                      (''optimized'', JBool True),
                      (''route_efficiency'', JStr ''optimal'')])], 200)
   \<and> status_code (optimize_route empty_store
        (JObj [(''start'', JStr ''New York''), (''waypoints'', JStr ''not-a-list''),
               (''end'', JStr ''Atlanta'')])) = 400"
proof -
  let ?ws = "[JStr ''Philadelphia'', JStr ''Baltimore'', JStr ''Washington DC'']"
  let ?kvs = "[(''start'', JStr ''New York''), (''waypoints'', JList ?ws),
               (''end'', JStr ''Atlanta'')]"
  let ?bad = "[(''start'', JStr ''New York''), (''waypoints'', JStr ''not-a-list''),
               (''end'', JStr ''Atlanta'')]"
  have h: "map_of ?kvs ''start'' = Some (JStr ''New York'') \<and> map_of ?kvs ''end'' = Some (JStr ''Atlanta'')
      \<and> map_of ?kvs ''waypoints'' = Some (JList ?ws)"
    by simp
  from optimize_route_contract [of ?kvs "JStr ''New York''" "JStr ''Atlanta''" ?ws empty_store
      JNull JNull empty_store] h
  have a: "snd (optimize_route empty_store (JObj ?kvs))
     = Inr (JObj [(''message'', JStr ''Route optimized successfully''),
                  (''route'', JObj
                     [(''start'', JStr ''New York''),
                      (''waypoints'', JList ?ws),
                      (''end'', JStr ''Atlanta''),
                      (''total_stops'', JInt 4),
                      (''estimated_time_minutes'', JInt 120),
                      (''optimized'', JBool True),
                      (''route_efficiency'', JStr ''optimal'')])], 200)"
    by simp
  have g: "map_of ?bad ''waypoints'' = Some (JStr ''not-a-list'')
      \<and> (case JStr ''not-a-list'' of JList ws \<Rightarrow> False | _ \<Rightarrow> True)"
    by simp
  from optimize_route_contract [of ?bad JNull JNull "[]" empty_store
      "JStr ''not-a-list''" JNull empty_store] g
  have b: "status_code (optimize_route empty_store (JObj ?bad)) = 400"
    by simp
  from a b show ?thesis by simp
qed

end
